theory Spec2Isabelle
  imports Complex_Main
begin

section \<open>Numbers of the engine\<close>

text \<open>
  The Vesta II engine (\<^verbatim>\<open>spread_model_vesta2.py\<close>) computes on IEEE doubles. A double is
  modelled as a real number or one of the three special values, and zero has no sign.
  Rounding is not modelled: a finite operation returns the exact real. Overflow is
  modelled in \<^verbatim>\<open>calc_slope_effect\<close> only, the one function that raises a constant to
  a power that grows with its argument; everywhere else a finite operation has a finite
  result. What is modelled throughout is every place where numpy or Python leaves the
  reals on finite operands: a division by zero, a negative base under a fractional
  exponent, and the propagation of the special values through later operations and
  comparisons.
\<close>

datatype fnum = Fin real | PInf | NInf | NaN

fun fsign :: "fnum \<Rightarrow> real" where
  "fsign (Fin a) = sgn a"
| "fsign PInf = 1"
| "fsign NInf = - 1"
| "fsign NaN = 0"

definition of_sign :: "real \<Rightarrow> fnum" where
  "of_sign s = (if s = 0 then NaN else if 0 < s then PInf else NInf)"

fun fneg :: "fnum \<Rightarrow> fnum" where
  "fneg (Fin a) = Fin (- a)"
| "fneg PInf = NInf"
| "fneg NInf = PInf"
| "fneg NaN = NaN"

fun fadd :: "fnum \<Rightarrow> fnum \<Rightarrow> fnum" where
  "fadd (Fin a) (Fin b) = Fin (a + b)"
| "fadd NaN y = NaN"
| "fadd x NaN = NaN"
| "fadd PInf NInf = NaN"
| "fadd NInf PInf = NaN"
| "fadd PInf y = PInf"
| "fadd NInf y = NInf"
| "fadd x PInf = PInf"
| "fadd x NInf = NInf"

definition fsub :: "fnum \<Rightarrow> fnum \<Rightarrow> fnum" where
  "fsub x y = fadd x (fneg y)"

fun fmul :: "fnum \<Rightarrow> fnum \<Rightarrow> fnum" where
  "fmul (Fin a) (Fin b) = Fin (a * b)"
| "fmul NaN y = NaN"
| "fmul x NaN = NaN"
| "fmul x y = of_sign (fsign x * fsign y)"

text \<open>numpy's true division: a zero divisor gives an infinity or NaN, never an exception.\<close>

fun fdiv :: "fnum \<Rightarrow> fnum \<Rightarrow> fnum" where
  "fdiv (Fin a) (Fin b) = (if b = 0 then of_sign (sgn a) else Fin (a / b))"
| "fdiv NaN y = NaN"
| "fdiv x NaN = NaN"
| "fdiv (Fin a) y = Fin 0"
| "fdiv x (Fin b) = of_sign (fsign x * (if b < 0 then - 1 else 1))"
| "fdiv x y = NaN"

fun fexp :: "fnum \<Rightarrow> fnum" where
  "fexp (Fin a) = Fin (exp a)"
| "fexp PInf = PInf"
| "fexp NInf = Fin 0"
| "fexp NaN = NaN"

definition is_int :: "real \<Rightarrow> bool" where
  "is_int b = (b = of_int \<lfloor>b\<rfloor>)"

definition is_odd :: "real \<Rightarrow> bool" where
  "is_odd b = (is_int b \<and> odd \<lfloor>b\<rfloor>)"

text \<open>
  \<^verbatim>\<open>np.power\<close> on doubles (C's \<^verbatim>\<open>pow\<close>): a negative finite base with a finite exponent
  that is not an integer gives NaN.
\<close>

fun fpow :: "fnum \<Rightarrow> fnum \<Rightarrow> fnum" where
  "fpow (Fin a) (Fin b) =
     (if b = 0 then Fin 1
      else if 0 < a then Fin (a powr b)
      else if a = 0 then (if 0 < b then Fin 0 else PInf)
      else if is_int b then Fin (power_int a \<lfloor>b\<rfloor>)
      else NaN)"
| "fpow x (Fin b) =
     (if b = 0 then Fin 1
      else case x of
        NaN \<Rightarrow> NaN
      | PInf \<Rightarrow> (if 0 < b then PInf else Fin 0)
      | _ \<Rightarrow> (if 0 < b then (if is_odd b then NInf else PInf) else Fin 0))"
| "fpow (Fin a) y =
     (if a = 1 then Fin 1
      else case y of
        NaN \<Rightarrow> NaN
      | PInf \<Rightarrow> (if \<bar>a\<bar> < 1 then Fin 0 else if \<bar>a\<bar> = 1 then Fin 1 else PInf)
      | _ \<Rightarrow> (if \<bar>a\<bar> < 1 then PInf else if \<bar>a\<bar> = 1 then Fin 1 else Fin 0))"
| "fpow NaN y = NaN"
| "fpow x NaN = NaN"
| "fpow x PInf = PInf"
| "fpow x NInf = Fin 0"

text \<open>Comparisons: every comparison with NaN is false.\<close>

fun flt :: "fnum \<Rightarrow> fnum \<Rightarrow> bool" where
  "flt (Fin a) (Fin b) = (a < b)"
| "flt NaN y = False"
| "flt x NaN = False"
| "flt x NInf = False"
| "flt PInf y = False"
| "flt x y = True"

definition fgt :: "fnum \<Rightarrow> fnum \<Rightarrow> bool" where
  "fgt x y = flt y x"

fun feq :: "fnum \<Rightarrow> fnum \<Rightarrow> bool" where
  "feq NaN y = False"
| "feq x NaN = False"
| "feq x y = (x = y)"

definition fle :: "fnum \<Rightarrow> fnum \<Rightarrow> bool" where
  "fle x y = (flt x y \<or> feq x y)"

text \<open>\<^verbatim>\<open>np.clip(x, lo, hi)\<close> is \<^verbatim>\<open>minimum(maximum(x, lo), hi)\<close>; both propagate NaN.\<close>

definition fmaximum :: "fnum \<Rightarrow> fnum \<Rightarrow> fnum" where
  "fmaximum x y = (if x = NaN \<or> y = NaN then NaN else if flt x y then y else x)"

definition fminimum :: "fnum \<Rightarrow> fnum \<Rightarrow> fnum" where
  "fminimum x y = (if x = NaN \<or> y = NaN then NaN else if flt y x then y else x)"

definition fclip :: "fnum \<Rightarrow> fnum \<Rightarrow> fnum \<Rightarrow> fnum" where
  "fclip lo hi x = fminimum (fmaximum x lo) hi"

text \<open>
  Overflow: a result of magnitude \<open>2 ^ 1024\<close> or more is beyond every double and
  becomes an infinity. (Results between the largest double and \<open>2 ^ 1024\<close> are left
  finite, since rounding is not modelled.)
\<close>

definition overflow :: "fnum \<Rightarrow> fnum" where
  "overflow x =
     (case x of
        Fin r \<Rightarrow> (if 2 ^ 1024 \<le> r then PInf else if r \<le> - (2 ^ 1024) then NInf else Fin r)
      | _ \<Rightarrow> x)"

section \<open>Scalars and arrays\<close>

text \<open>
  An argument of an engine function is a Python number, a numpy scalar (or 0-d array)
  or a 1-d numpy array. The three behave differently: Python's own \<^verbatim>\<open>/\<close> raises
  \<^verbatim>\<open>ZeroDivisionError\<close> where numpy returns an infinity, numpy broadcasts a 1-d array
  against a scalar or against an array of the same length or of length one and raises
  \<^verbatim>\<open>ValueError\<close> on any other pair of lengths, and the truth value of an array of
  two or more elements raises \<^verbatim>\<open>ValueError\<close>.
\<close>

datatype error = ValueError | ZeroDivisionError

datatype 'a arr = Py 'a | Np0 'a | Np1 "'a list"

type_synonym val = "fnum arr"
type_synonym res = "error + val"

fun bop :: "('a \<Rightarrow> 'b \<Rightarrow> 'c) \<Rightarrow> 'a arr \<Rightarrow> 'b arr \<Rightarrow> error + 'c arr" where
  "bop f (Py a) (Py b) = Inr (Py (f a b))"
| "bop f (Py a) (Np0 b) = Inr (Np0 (f a b))"
| "bop f (Np0 a) (Py b) = Inr (Np0 (f a b))"
| "bop f (Np0 a) (Np0 b) = Inr (Np0 (f a b))"
| "bop f (Py a) (Np1 ys) = Inr (Np1 (map (f a) ys))"
| "bop f (Np0 a) (Np1 ys) = Inr (Np1 (map (f a) ys))"
| "bop f (Np1 xs) (Py b) = Inr (Np1 (map (\<lambda>x. f x b) xs))"
| "bop f (Np1 xs) (Np0 b) = Inr (Np1 (map (\<lambda>x. f x b) xs))"
| "bop f (Np1 xs) (Np1 ys) =
     (if length xs = length ys then Inr (Np1 (map2 f xs ys))
      else if length xs = 1 then Inr (Np1 (map (f (hd xs)) ys))
      else if length ys = 1 then Inr (Np1 (map (\<lambda>x. f x (hd ys)) xs))
      else Inl ValueError)"

text \<open>The result of a numpy function is never a Python number.\<close>

fun as_np :: "'a arr \<Rightarrow> 'a arr" where
  "as_np (Py a) = Np0 a"
| "as_np v = v"

fun umap :: "('a \<Rightarrow> 'b) \<Rightarrow> 'a arr \<Rightarrow> 'b arr" where
  "umap f (Py a) = Py (f a)"
| "umap f (Np0 a) = Np0 (f a)"
| "umap f (Np1 xs) = Np1 (map f xs)"

definition bindE :: "error + 'a \<Rightarrow> ('a \<Rightarrow> error + 'b) \<Rightarrow> error + 'b" where
  "bindE m k = (case m of Inl e \<Rightarrow> Inl e | Inr x \<Rightarrow> k x)"

text \<open>
  Operands are evaluated left to right, and the first exception wins.
\<close>

definition lift2 ::
  "('a arr \<Rightarrow> 'b arr \<Rightarrow> error + 'c arr) \<Rightarrow> error + 'a arr \<Rightarrow> error + 'b arr \<Rightarrow> error + 'c arr"
where
  "lift2 g x y = bindE x (\<lambda>a. bindE y (\<lambda>b. g a b))"

definition lit :: "real \<Rightarrow> res" where
  "lit r = Inr (Py (Fin r))"

definition py_add :: "res \<Rightarrow> res \<Rightarrow> res" where
  "py_add = lift2 (bop fadd)"

definition py_sub :: "res \<Rightarrow> res \<Rightarrow> res" where
  "py_sub = lift2 (bop fsub)"

definition py_mul :: "res \<Rightarrow> res \<Rightarrow> res" where
  "py_mul = lift2 (bop fmul)"

fun truediv :: "val \<Rightarrow> val \<Rightarrow> res" where
  "truediv (Py a) (Py b) = (if b = Fin 0 then Inl ZeroDivisionError else Inr (Py (fdiv a b)))"
| "truediv x y = bop fdiv x y"

definition py_div :: "res \<Rightarrow> res \<Rightarrow> res" where
  "py_div = lift2 truediv"

definition py_neg :: "res \<Rightarrow> res" where
  "py_neg x = bindE x (\<lambda>a. Inr (umap fneg a))"

text \<open>The result of an operation as a double: each element overflows on its own.\<close>

definition dbl :: "res \<Rightarrow> res" where
  "dbl x = bindE x (\<lambda>a. Inr (umap overflow a))"

definition py_lt :: "res \<Rightarrow> res \<Rightarrow> error + bool arr" where
  "py_lt = lift2 (bop flt)"

definition py_le :: "res \<Rightarrow> res \<Rightarrow> error + bool arr" where
  "py_le = lift2 (bop fle)"

definition py_gt :: "res \<Rightarrow> res \<Rightarrow> error + bool arr" where
  "py_gt = lift2 (bop fgt)"

definition py_eq :: "res \<Rightarrow> res \<Rightarrow> error + bool arr" where
  "py_eq = lift2 (bop feq)"

definition np_power :: "res \<Rightarrow> res \<Rightarrow> res" where
  "np_power x y = bindE (lift2 (bop fpow) x y) (\<lambda>v. Inr (as_np v))"

definition np_exp :: "res \<Rightarrow> res" where
  "np_exp x = bindE x (\<lambda>a. Inr (as_np (umap fexp a)))"

definition np_clip :: "res \<Rightarrow> real \<Rightarrow> real \<Rightarrow> res" where
  "np_clip x lo hi = bindE x (\<lambda>a. Inr (as_np (umap (fclip (Fin lo) (Fin hi)) a)))"

text \<open>
  \<^verbatim>\<open>np.where(c, x, y)\<close> evaluates both \<open>x\<close> and \<open>y\<close> in full before it selects, and
  broadcasts the three operands together.
\<close>

definition np_where :: "error + bool arr \<Rightarrow> res \<Rightarrow> res \<Rightarrow> res" where
  "np_where c x y =
     bindE c (\<lambda>cv. bindE x (\<lambda>xv. bindE y (\<lambda>yv.
       bindE (bop Pair xv yv) (\<lambda>xy.
       bindE (bop (\<lambda>b p. if b then fst p else snd p) cv xy) (\<lambda>v. Inr (as_np v))))))"

text \<open>
  Python's builtin \<^verbatim>\<open>max(x, 0)\<close>: it keeps \<open>x\<close> unless \<^verbatim>\<open>0 > x\<close> is true, and takes the
  truth value of that comparison. For a 1-d array the comparison is an array of
  booleans, whose truth value exists only when it has at most one element (the empty
  array counts as false, with a deprecation warning, up to numpy 2.1).
\<close>

fun truth :: "bool arr \<Rightarrow> error + bool" where
  "truth (Py b) = Inr b"
| "truth (Np0 b) = Inr b"
| "truth (Np1 []) = Inr False"
| "truth (Np1 [b]) = Inr b"
| "truth (Np1 bs) = Inl ValueError"

definition py_max0 :: "res \<Rightarrow> res" where
  "py_max0 x =
     bindE x (\<lambda>a. bindE (bop fgt (Py (Fin 0)) a) (\<lambda>c. bindE (truth c) (\<lambda>t.
       if t then Inr (Py (Fin 0)) else Inr a)))"

section \<open>The engine\<close>

definition calc_rate_of_spread :: "val \<Rightarrow> val \<Rightarrow> val \<Rightarrow> val \<Rightarrow> val \<Rightarrow> res" where
  "calc_rate_of_spread ros_phase1 ros_phase2 ros_phase3 probability_phase2 probability_phase3 =
     np_where
       (py_lt (Inr probability_phase2) (lit 0.5))
       (py_add
          (py_mul (Inr ros_phase1) (py_sub (lit 1) (Inr probability_phase2)))
          (py_mul (Inr ros_phase2) (Inr probability_phase2)))
       (py_add
          (py_add
             (py_mul (Inr ros_phase1) (py_sub (lit 1) (Inr probability_phase2)))
             (py_mul (py_mul (Inr ros_phase2) (Inr probability_phase2))
                (py_sub (lit 1) (Inr probability_phase3))))
          (py_mul (Inr ros_phase3) (Inr probability_phase3)))"

text \<open>
  The third operand of the inner \<^verbatim>\<open>np.where\<close> of \<^verbatim>\<open>calc_moisture_function\<close>, named so
  that it can be evaluated on its own.
\<close>

definition moisture_quartic :: "val \<Rightarrow> res" where
  "moisture_quartic fuel_moisture =
     py_sub
       (py_add
          (py_sub
             (py_add (lit 0.9082) (py_mul (lit 0.1206) (Inr fuel_moisture)))
             (py_mul (lit 0.03106) (np_power (Inr fuel_moisture) (lit 2))))
          (py_mul (lit 0.001853) (np_power (Inr fuel_moisture) (lit 3))))
       (py_mul (lit 0.00003467) (np_power (Inr fuel_moisture) (lit 4)))"

definition calc_moisture_function :: "val \<Rightarrow> res" where
  "calc_moisture_function fuel_moisture =
     np_where
       (py_le (Inr fuel_moisture) (lit 4.1))
       (lit 1)
       (np_where
          (py_gt (Inr fuel_moisture) (lit 24))
          (lit 0)
          (moisture_quartic fuel_moisture))"

definition calc_fuel_availability :: "val \<Rightarrow> val \<Rightarrow> val \<Rightarrow> bool \<Rightarrow> res" where
  "calc_fuel_availability DF DI wrf wet_forest =
     bindE
       (if wet_forest then
          bindE
            (py_add
               (py_mul
                  (py_sub
                     (py_sub (py_mul (lit 0.0046) (np_power (Inr wrf) (lit 2)))
                        (py_mul (lit 0.0079) (Inr wrf)))
                     (lit 0.0175))
                  (Inr DI))
               (py_add
                  (py_add (py_mul (lit (- 0.9167)) (np_power (Inr wrf) (lit 2)))
                     (py_mul (lit 1.5833) (Inr wrf)))
                  (lit 13.5)))
            (\<lambda>C1. bindE (lit 0)
            (\<lambda>C2. bindE
               (py_div (py_mul (Inr DF) (py_max0 (py_add (Inr C1) (Inr C2)))) (lit 10))
            (\<lambda>drought_factor. np_clip (Inr drought_factor) 0 10)))
        else Inr DF)
       (\<lambda>drought_factor.
          py_div (lit 1.008)
            (py_add (lit 1)
               (py_mul (lit 104.9) (np_exp (py_mul (lit (- 0.9306)) (Inr drought_factor))))))"

text \<open>
  \<^verbatim>\<open>calc_slope_effect\<close>, with every arithmetic result taken as a double: the power
  \<open>2 ^ (- slope / 10)\<close> and its double overflow for slopes the function can receive.
\<close>

definition calc_slope_effect :: "val \<Rightarrow> res" where
  "calc_slope_effect slope =
     np_where
       (py_eq (Inr slope) (lit 0))
       (lit 1)
       (np_where
          (py_gt (Inr slope) (lit 0))
          (dbl (np_power (lit 2) (dbl (py_div (Inr slope) (lit 10)))))
          (dbl (py_div
             (dbl (np_power (lit 2) (dbl (py_div (py_neg (Inr slope)) (lit 10)))))
             (dbl (py_sub
                (dbl (py_mul (lit 2)
                   (dbl (np_power (lit 2) (dbl (py_div (py_neg (Inr slope)) (lit 10)))))))
                (lit 1))))))"

definition calc_height_understorey :: "val \<Rightarrow> val \<Rightarrow> res" where
  "calc_height_understorey FHS_elevated height_elevated =
     py_add
       (py_add (lit (- 0.1)) (py_mul (lit 0.06) (Inr FHS_elevated)))
       (py_mul (lit 0.48) (Inr height_elevated))"


definition calculate_ros_phase2 ::
  "val \<Rightarrow> val \<Rightarrow> val \<Rightarrow> val \<Rightarrow> val \<Rightarrow> val \<Rightarrow> val \<Rightarrow> res"
where
  "calculate_ros_phase2 wind_speed fuel_moisture fuel_availability fuel_load_surface wrf
       height_understorey slope =
     bindE (py_mul (calc_moisture_function fuel_moisture) (Inr fuel_availability))
     (\<lambda>fuel_moisture_effect. bindE (calc_slope_effect slope)
     (\<lambda>slope_effect. bindE (py_div (Inr wind_speed) (Inr wrf))
     (\<lambda>u. bindE
        (py_mul
           (py_mul
              (py_mul (lit 0.19591) (np_power (Inr u) (lit 0.8257)))
              (np_power (py_div (Inr fuel_load_surface) (lit 10)) (lit 0.4672)))
           (np_power (Inr height_understorey) (lit 0.495)))
     (\<lambda>ros.
        py_mul
          (py_mul (py_mul (Inr ros) (Inr fuel_moisture_effect)) (Inr slope_effect))
          (lit 1000)))))"


definition calc_probability_phase2 :: "val \<Rightarrow> val \<Rightarrow> val \<Rightarrow> val \<Rightarrow> val \<Rightarrow> res" where
  "calc_probability_phase2 wind_speed fuel_moisture fuel_availability fuel_load_surface wrf =
     bindE (py_mul (calc_moisture_function fuel_moisture) (Inr fuel_availability))
     (\<lambda>fuel_moisture_effect. bindE
        (py_add
           (py_add
              (py_add (lit (- 23.9315))
                 (py_mul (lit 1.7033) (py_div (Inr wind_speed) (Inr wrf))))
              (py_mul (lit 12.0822) (Inr fuel_moisture_effect)))
           (py_mul (lit 0.95236) (Inr fuel_load_surface)))
     (\<lambda>g_x.
        np_where
          (py_lt (Inr fuel_load_surface) (lit 1))
          (lit 0)
          (py_div (lit 1) (py_add (lit 1) (np_exp (py_neg (Inr g_x)))))))"


section \<open>Reference formulas\<close>

text \<open>
  The formulas of the specification over the reals, against which the engine is compared.
\<close>

definition quartic :: "real \<Rightarrow> real" where
  "quartic m = 0.9082 + 0.1206 * m - 0.03106 * m^2 + 0.001853 * m^3 - 0.00003467 * m^4"


definition moisture_effect :: "real \<Rightarrow> real" where
  "moisture_effect m = (if m \<le> 4.1 then 1 else if m > 24 then 0 else quartic m)"

definition availability :: "real \<Rightarrow> real" where
  "availability d = 1.008 / (1 + 104.9 * exp (- 0.9306 * d))"

definition two_term :: "real \<Rightarrow> real \<Rightarrow> real \<Rightarrow> real" where
  "two_term ros1 ros2 p2 = ros1 * (1 - p2) + ros2 * p2"

definition three_term :: "real \<Rightarrow> real \<Rightarrow> real \<Rightarrow> real \<Rightarrow> real \<Rightarrow> real" where
  "three_term ros1 ros2 ros3 p2 p3 = ros1 * (1 - p2) + ros2 * p2 * (1 - p3) + ros3 * p3"

definition spec_probability_phase2 :: "real \<Rightarrow> real \<Rightarrow> real \<Rightarrow> real \<Rightarrow> real \<Rightarrow> real" where
  "spec_probability_phase2 wind_speed fuel_moisture fuel_availability fuel_load_surface wrf =
     (if fuel_load_surface < 1 then 0
      else 1 / (1 + exp (- (- 23.9315 + 1.7033 * (wind_speed / wrf)
             + 12.0822 * (moisture_effect fuel_moisture * fuel_availability)
             + 0.95236 * fuel_load_surface))))"

text \<open>The elements of a value, its shape, and its length for broadcasting.\<close>

fun elems :: "'a arr \<Rightarrow> 'a list" where
  "elems (Py a) = [a]"
| "elems (Np0 a) = [a]"
| "elems (Np1 xs) = xs"

datatype shp = SPy | SNp0 | SNp1 nat

fun shape :: "'a arr \<Rightarrow> shp" where
  "shape (Py a) = SPy"
| "shape (Np0 a) = SNp0"
| "shape (Np1 xs) = SNp1 (length xs)"

definition rshape :: "error + 'a arr \<Rightarrow> error + shp" where
  "rshape r = map_sum id shape r"








section \<open>Evaluation on scalars\<close>

lemmas ev = lit_def py_add_def py_sub_def py_mul_def py_div_def py_neg_def py_lt_def py_le_def
  py_gt_def py_eq_def np_power_def np_exp_def np_clip_def np_where_def py_max0_def lift2_def
  bindE_def fsub_def fgt_def fle_def

lemma fpow_2: "fpow (Fin a) (Fin 2) = Fin (a^2)"
  by (simp add: is_int_def)

lemma fpow_3: "fpow (Fin a) (Fin 3) = Fin (a^3)"
  by (simp add: is_int_def)

lemma fpow_4: "fpow (Fin a) (Fin 4) = Fin (a^4)"
  by (simp add: is_int_def)

lemma fpow_neg_frac: "h < 0 \<Longrightarrow> fpow (Fin h) (Fin (99 / 200)) = NaN"
  by (simp add: is_int_def)

lemma fmul_NaN_right: "fmul x NaN = NaN"
  by (cases x) simp_all

lemma moisture_quartic_fin: "moisture_quartic (Py (Fin m)) = Inr (Np0 (Fin (quartic m)))"
  unfolding moisture_quartic_def quartic_def
  by (simp add: ev fpow_2 fpow_3 fpow_4 del: fpow.simps)

lemma moisture_function_fin:
  "calc_moisture_function (Py (Fin m)) = Inr (Np0 (Fin (moisture_effect m)))"
  unfolding calc_moisture_function_def moisture_effect_def
  by (simp add: moisture_quartic_fin) (auto simp add: ev)

lemma moisture_function_scalar: "\<exists>y. calc_moisture_function (Py x) = Inr (Np0 y)"
  unfolding calc_moisture_function_def moisture_quartic_def
  by (simp add: ev del: fpow.simps)

lemma slope_effect_scalar: "\<exists>y. calc_slope_effect (Py x) = Inr (Np0 y)"
  unfolding calc_slope_effect_def
  by (simp add: ev dbl_def del: fpow.simps)





lemma availability_denom: "1 + 1049 * exp (x::real) / 10 \<noteq> 0"
proof -
  have "0 < 1 + 1049 * exp x / 10" by (simp add: add_pos_nonneg)
  then show ?thesis by simp
qed

lemma one_plus_exp_neq0: "1 + exp (x::real) \<noteq> 0"
  using exp_gt_zero [of x] by (simp add: add_pos_pos less_imp_neq [symmetric] del: exp_gt_zero)

lemma fuel_availability_dry_fin:
  "calc_fuel_availability (Py (Fin d)) DI wrf False = Inr (Np0 (Fin (availability d)))"
  unfolding calc_fuel_availability_def availability_def
  by (simp add: ev availability_denom)

lemma availability_mono: "d1 \<le> d2 \<Longrightarrow> availability d1 \<le> availability d2"
  unfolding availability_def
  by (intro divide_left_mono add_left_mono mult_left_mono mult_pos_pos add_pos_nonneg) simp_all

section \<open>The quartic on the interval from 4.1 to 24\<close>










section \<open>Broadcasting\<close>

text \<open>Whether an operation succeeds, and the shape of its result, depend on shapes only.\<close>

lemma bop_shape:
  "shape x = shape x' \<Longrightarrow> shape y = shape y' \<Longrightarrow> rshape (bop f x y) = rshape (bop g x' y')"
  by (cases x; cases x'; cases y; cases y') (auto simp add: rshape_def)

lemma rshape_Inl: "rshape X = rshape X' \<Longrightarrow> X = Inl e \<Longrightarrow> X' = Inl e"
  by (cases X') (simp_all add: rshape_def)

lemma rshape_Inr:
  "rshape X = rshape X' \<Longrightarrow> X = Inr x \<Longrightarrow> \<exists>x'. X' = Inr x' \<and> shape x = shape x'"
  by (cases X') (simp_all add: rshape_def)

lemma lift2_shape:
  assumes "rshape X = rshape X'" "rshape Y = rshape Y'"
  shows "rshape (lift2 (bop f) X Y) = rshape (lift2 (bop g) X' Y')"
proof (cases X)
  case (Inl e)
  with assms(1) have "X' = Inl e" by (rule rshape_Inl)
  with Inl show ?thesis by (simp add: lift2_def bindE_def rshape_def)
next
  case x: (Inr x)
  with assms(1) obtain x' where x': "X' = Inr x'" "shape x = shape x'"
    using rshape_Inr by blast
  show ?thesis
  proof (cases Y)
    case (Inl e)
    with assms(2) have "Y' = Inl e" by (rule rshape_Inl)
    with Inl x x' show ?thesis by (simp add: lift2_def bindE_def rshape_def)
  next
    case y: (Inr y)
    with assms(2) obtain y' where y': "Y' = Inr y'" "shape y = shape y'"
      using rshape_Inr by blast
    from bop_shape [OF x'(2) y'(2)] x x' y y' show ?thesis
      by (simp add: lift2_def bindE_def)
  qed
qed

lemma map2_cong_set:
  "(\<And>a b. a \<in> set xs \<Longrightarrow> b \<in> set ys \<Longrightarrow> f a b = g a b) \<Longrightarrow> map2 f xs ys = map2 g xs ys"
  by (auto dest: set_zip_leftD set_zip_rightD)

lemma bop_cong:
  "(\<And>a b. a \<in> set (elems x) \<Longrightarrow> b \<in> set (elems y) \<Longrightarrow> f a b = g a b)
    \<Longrightarrow> bop f x y = bop g x y"
proof (cases x; cases y)
  fix xs ys
  assume xy: "x = Np1 xs" "y = Np1 ys"
  assume h: "\<And>a b. a \<in> set (elems x) \<Longrightarrow> b \<in> set (elems y) \<Longrightarrow> f a b = g a b"
  have 1: "map2 f xs ys = map2 g xs ys"
    by (rule map2_cong_set) (simp add: h xy)
  have 2: "length xs = 1 \<Longrightarrow> map (f (hd xs)) ys = map (g (hd xs)) ys"
    by (rule map_cong [OF refl]) (auto simp add: h xy length_Suc_conv)
  have 3: "length ys = 1 \<Longrightarrow> map (\<lambda>a. f a (hd ys)) xs = map (\<lambda>a. g a (hd ys)) xs"
    by (rule map_cong [OF refl]) (auto simp add: h xy length_Suc_conv)
  show ?thesis using 1 2 3 by (simp add: xy)
qed auto

lemma bop_select_true:
  assumes "list_all id (elems c)"
  shows "bop (\<lambda>b p. if b then fst p else snd p) c xy = bop (\<lambda>b p. fst p) c xy"
  using assms by (intro bop_cong) (auto simp add: list_all_iff)

lemma bop_map_right: "bop (\<lambda>a b. f a (h b)) x y = bop f x (map_arr h y)"
  by (cases x; cases y) (auto simp add: zip_map2 hd_map length_Suc_conv)

lemma bop_pair_fst:
  "shape y = shape y' \<Longrightarrow>
     map_sum id (map_arr fst) (bop Pair x y) = map_sum id (map_arr fst) (bop Pair x y')"
  by (cases x; cases y; cases y')
    (auto simp add: length_Suc_conv map_fst_zip comp_def map_replicate_const)

text \<open>
  Where every element of the condition is true, \<^verbatim>\<open>np.where\<close> takes from its third
  operand the shape and nothing else.
\<close>

lemma np_where_true:
  assumes c: "list_all id (elems c)" and s: "rshape Y = rshape Y'"
  shows "np_where (Inr c) X Y = np_where (Inr c) X Y'"
proof (cases X)
  case (Inl e)
  then show ?thesis by (simp add: np_where_def bindE_def)
next
  case x: (Inr x)
  show ?thesis
  proof (cases Y)
    case (Inl e)
    with s have "Y' = Inl e" by (rule rshape_Inl)
    with Inl show ?thesis by simp
  next
    case y: (Inr y)
    with s obtain y' where y': "Y' = Inr y'" "shape y = shape y'"
      using rshape_Inr by blast
    have sel: "\<And>xy. bop (\<lambda>b p. if b then fst p else snd p) c xy
        = bop (\<lambda>b a. a) c (map_arr fst xy)"
      by (simp add: bop_select_true [OF c] bop_map_right [symmetric])
    from bop_pair_fst [OF y'(2), of x] show ?thesis
      unfolding np_where_def x y y' by (auto simp add: bindE_def sel split: sum.splits)
  qed
qed

lemma bop_scalar_right: "bop f x (Py b) = Inr (map_arr (\<lambda>a. f a b) x)"
  by (cases x) simp_all

lemma elems_map_arr: "elems (map_arr f v) = map f (elems v)"
  by (cases v) simp_all






































































section \<open>The claims\<close>

subsection \<open>C1: the blender at a Phase-2 probability of exactly one half\<close>

text \<open>
  Claim C1, as amended. The condition of \<^verbatim>\<open>calc_rate_of_spread\<close> is the strict
  \<^verbatim>\<open>probability_phase2 < 0.5\<close>, so a probability of exactly 0.5 takes the other branch:
  for all rates and every Phase-3 probability the result is the three-term form
  \<open>ros1 (1 - p2) + ros2 p2 (1 - p3) + ros3 p3\<close>. In general the result is the two-term
  form \<open>ros1 (1 - p2) + ros2 p2\<close> when the Phase-2 probability is below 0.5, and the
  three-term form for every other probability.
\<close>

theorem rate_of_spread_at_half_is_three_term:
  "calc_rate_of_spread (Py (Fin ros1)) (Py (Fin ros2)) (Py (Fin ros3)) (Py (Fin 0.5)) (Py (Fin p3))
     = Inr (Np0 (Fin (three_term ros1 ros2 ros3 0.5 p3)))
   \<and> calc_rate_of_spread (Py (Fin ros1)) (Py (Fin ros2)) (Py (Fin ros3)) (Py (Fin p2)) (Py (Fin p3))
     = Inr (Np0 (Fin (if p2 < 0.5 then two_term ros1 ros2 p2
                      else three_term ros1 ros2 ros3 p2 p3)))"
  by (simp add: calc_rate_of_spread_def ev three_term_def two_term_def)

text \<open>
  With both lower rates at 0, a Phase-3 rate of 1 and a Phase-3 probability of 1 the
  result is 1, where the two-term form gives 0.
\<close>

theorem rate_of_spread_at_half_not_two_term:
  "calc_rate_of_spread (Py (Fin 0)) (Py (Fin 0)) (Py (Fin 1)) (Py (Fin 0.5)) (Py (Fin 1))
     = Inr (Np0 (Fin 1))
   \<and> two_term 0 0 0.5 = 0"
  by (simp add: calc_rate_of_spread_def ev two_term_def)

subsection \<open>C2: the wet-forest branch on a sequence of drought indices\<close>

text \<open>
  Claim C2 says that \<^verbatim>\<open>calc_fuel_availability\<close> evaluates elementwise and without error
  on sequences, also with \<^verbatim>\<open>wet_forest=True\<close>. The wet-forest branch calls Python's
  builtin \<^verbatim>\<open>max\<close> on \<open>C1 + C2\<close>, which is an array as soon as the drought index is one:
  with two observations the call raises \<^verbatim>\<open>ValueError\<close>, although the scalar call at
  each position returns a value, and so does the call with the same sequence of drought
  factors and a scalar drought index.
\<close>

theorem fuel_availability_wet_array_DI_raises:
  "calc_fuel_availability (Np1 [Fin 5, Fin 5]) (Np1 [Fin 100, Fin 100]) (Py (Fin 3)) True
     = Inl ValueError
   \<and> calc_fuel_availability (Py (Fin 5)) (Py (Fin 100)) (Py (Fin 3)) True
     = Inr (Np0 (Fin (availability 5.0098)))
   \<and> calc_fuel_availability (Np1 [Fin 5, Fin 5]) (Py (Fin 100)) (Py (Fin 3)) True
     = Inr (Np1 [Fin (availability 5.0098), Fin (availability 5.0098)])"
  unfolding calc_fuel_availability_def availability_def
  by (simp add: ev fpow_2 fclip_def fmaximum_def fminimum_def availability_denom
      del: fpow.simps)

subsection \<open>C3: the quartic at the branch boundaries\<close>

text \<open>
  Claim C3, as amended. The moisture-effect function is not continuous at its branch
  boundaries: the quartic evaluates to 0.998455099613 at a fuel moisture of 4.1, where
  the function returns the constant 1, and to 0.02523808 at a fuel moisture of 24, which
  is what the function returns there, while it returns 0 for every larger moisture.
\<close>

theorem moisture_quartic_boundary_values:
  "moisture_quartic (Py (Fin 4.1)) = Inr (Np0 (Fin 0.998455099613))
   \<and> moisture_quartic (Py (Fin 24)) = Inr (Np0 (Fin 0.02523808))
   \<and> calc_moisture_function (Py (Fin 4.1)) = Inr (Np0 (Fin 1))
   \<and> calc_moisture_function (Py (Fin 24)) = Inr (Np0 (Fin 0.02523808))"
  by (simp add: moisture_function_fin moisture_effect_def moisture_quartic_fin quartic_def
      power2_eq_square power3_eq_cube power4_eq_xxxx)

text \<open>At 24 the quartic is not 0, and at 4.1 it is not 1.\<close>

theorem moisture_quartic_boundary_mismatch:
  "moisture_quartic (Py (Fin 24)) \<noteq> Inr (Np0 (Fin 0))
   \<and> moisture_quartic (Py (Fin 4.1)) \<noteq> Inr (Np0 (Fin 1))"
  by (simp add: moisture_quartic_fin quartic_def
      power2_eq_square power3_eq_cube power4_eq_xxxx)

subsection \<open>C4: the Phase-2 transition probability\<close>

text \<open>
  Claim C4, as amended. For every wind speed, fuel moisture, fuel availability and fuel
  load and every wind reduction factor other than zero, \<^verbatim>\<open>calc_probability_phase2\<close>
  returns exactly 0 when the fuel load is below 1, and otherwise the logistic
  \<open>1 / (1 + exp (- g))\<close> with \<open>g\<close> as in the specification.
\<close>

theorem probability_phase2_scalar:
  "wrf \<noteq> 0 \<Longrightarrow>
   calc_probability_phase2 (Py (Fin wind_speed)) (Py (Fin fuel_moisture))
       (Py (Fin fuel_availability)) (Py (Fin fuel_load_surface)) (Py (Fin wrf))
     = Inr (Np0 (Fin (spec_probability_phase2 wind_speed fuel_moisture fuel_availability
         fuel_load_surface wrf)))"
  unfolding calc_probability_phase2_def spec_probability_phase2_def
  by (simp add: moisture_function_fin ev one_plus_exp_neq0)

theorem probability_phase2_scalar_witness:
  "(3::real) \<noteq> 0 \<and>
   calc_probability_phase2 (Py (Fin 20)) (Py (Fin 10)) (Py (Fin 1)) (Py (Fin 0.5)) (Py (Fin 3))
     = Inr (Np0 (Fin 0))"
  using probability_phase2_scalar [of 3 20 10 1 "0.5"]
  by (simp add: spec_probability_phase2_def)

text \<open>
  With Python numbers and a wind reduction factor of zero the division
  \<^verbatim>\<open>wind_speed / wrf\<close> raises, whatever the fuel load.
\<close>

theorem probability_phase2_zero_wrf_raises:
  "calc_probability_phase2 (Py (Fin 20)) (Py (Fin 10)) (Py (Fin 1)) (Py (Fin 0.5)) (Py (Fin 0))
     = Inl ZeroDivisionError"
  by (simp add: calc_probability_phase2_def moisture_function_fin ev)

subsection \<open>C5: the range of the moisture-effect function\<close>



subsection \<open>C6: fuel availability grows with the drought factor\<close>

text \<open>
  Claim C6. In the dry-forest branch (\<^verbatim>\<open>wet_forest=False\<close>), with the other parameters
  fixed, a drought factor that is not smaller gives a fuel availability that is not
  smaller.
\<close>

theorem fuel_availability_dry_mono:
  "DF1 \<le> DF2 \<Longrightarrow>
   \<exists>a1 a2. calc_fuel_availability (Py (Fin DF1)) DI wrf False = Inr (Np0 (Fin a1))
      \<and> calc_fuel_availability (Py (Fin DF2)) DI wrf False = Inr (Np0 (Fin a2))
      \<and> a1 \<le> a2"
  using availability_mono [of DF1 DF2] by (simp add: fuel_availability_dry_fin)

theorem fuel_availability_dry_mono_witness:
  "(0::real) \<le> 1 \<and>
   (\<exists>a1 a2. calc_fuel_availability (Py (Fin 0)) (Py (Fin 100)) (Py (Fin 3)) False
        = Inr (Np0 (Fin a1))
      \<and> calc_fuel_availability (Py (Fin 1)) (Py (Fin 100)) (Py (Fin 3)) False
        = Inr (Np0 (Fin a2))
      \<and> a1 \<le> a2)"
  using fuel_availability_dry_mono [of 0 1 "Py (Fin 100)" "Py (Fin 3)"] by simp

subsection \<open>C7: sequences of different lengths\<close>




subsection \<open>C8: a negative understorey height\<close>

text \<open>
  Claim C8. \<^verbatim>\<open>calc_height_understorey\<close> returns \<open>- 0.1\<close> for a hazard score and an
  elevated fuel height of 0. For every negative understorey height
  \<^verbatim>\<open>calculate_ros_phase2\<close> raises the height to the power 0.495, and its result is NaN,
  whatever the other arguments are; it is never a real number (a wind reduction factor
  of zero, given as a Python number, raises before the power is taken). Nothing between
  the two functions guards against this: the height computed from 0 and 0, passed on as
  the engine's caller does, gives NaN.
\<close>

theorem negative_understorey_height_gives_nan:
  "calc_height_understorey (Py (Fin 0)) (Py (Fin 0)) = Inr (Py (Fin (- 0.1)))
   \<and> (h < 0 \<longrightarrow>
        calculate_ros_phase2 (Py wind_speed) (Py fuel_moisture) (Py fuel_availability)
            (Py fuel_load_surface) (Py wrf) (Py (Fin h)) (Py slope)
          = (if wrf = Fin 0 then Inl ZeroDivisionError else Inr (Np0 NaN)))
   \<and> bindE (calc_height_understorey (Py (Fin 0)) (Py (Fin 0)))
        (\<lambda>height_understorey.
           calculate_ros_phase2 (Py wind_speed) (Py fuel_moisture) (Py fuel_availability)
             (Py fuel_load_surface) (Py wrf) height_understorey (Py slope))
       = (if wrf = Fin 0 then Inl ZeroDivisionError else Inr (Np0 NaN))"
proof -
  have height: "calc_height_understorey (Py (Fin 0)) (Py (Fin 0)) = Inr (Py (Fin (- 0.1)))"
    by (simp add: calc_height_understorey_def ev)
  obtain y where y: "calc_moisture_function (Py fuel_moisture) = Inr (Np0 y)"
    using moisture_function_scalar by blast
  obtain z where z: "calc_slope_effect (Py slope) = Inr (Np0 z)"
    using slope_effect_scalar by blast
  have nan: "calculate_ros_phase2 (Py wind_speed) (Py fuel_moisture) (Py fuel_availability)
            (Py fuel_load_surface) (Py wrf) (Py (Fin k)) (Py slope)
          = (if wrf = Fin 0 then Inl ZeroDivisionError else Inr (Np0 NaN))"
    if "k < 0" for k
    unfolding calculate_ros_phase2_def
    by (simp add: y z ev fpow_neg_frac [OF that] fmul_NaN_right del: fpow.simps)
  have "bindE (calc_height_understorey (Py (Fin 0)) (Py (Fin 0)))
        (\<lambda>height_understorey.
           calculate_ros_phase2 (Py wind_speed) (Py fuel_moisture) (Py fuel_availability)
             (Py fuel_load_surface) (Py wrf) height_understorey (Py slope))
       = (if wrf = Fin 0 then Inl ZeroDivisionError else Inr (Np0 NaN))"
    unfolding height using nan [of "- 0.1"] by (simp add: bindE_def)
  with height nan [of h] show ?thesis by blast
qed

theorem negative_understorey_height_gives_nan_witness:
  "(- 0.1 :: real) < 0
   \<and> calculate_ros_phase2 (Py (Fin 20)) (Py (Fin 10)) (Py (Fin 1)) (Py (Fin 15)) (Py (Fin 3))
        (Py (Fin (- 0.1))) (Py (Fin 0))
      = Inr (Np0 NaN)"
  using negative_understorey_height_gives_nan
    [of "- 0.1" "Fin 20" "Fin 10" "Fin 1" "Fin 15" "Fin 3" "Fin 0"]
  by simp

subsection \<open>C9: below one half the Phase-3 inputs do not matter\<close>

text \<open>
  Claim C9. When every element of the Phase-2 probability is below 0.5, two calls of
  \<^verbatim>\<open>calc_rate_of_spread\<close> that differ only in the values of the Phase-3 rate and of the
  Phase-3 probability (scalars replaced by scalars, arrays by arrays of the same length)
  return the same result, whatever those values are, NaN and infinities included.
\<close>

theorem rate_of_spread_ignores_phase3_below_half:
  assumes p2: "list_all (\<lambda>x. flt x (Fin 0.5)) (elems probability_phase2)"
    and r3: "shape ros_phase3 = shape ros_phase3'"
    and p3: "shape probability_phase3 = shape probability_phase3'"
  shows "calc_rate_of_spread ros_phase1 ros_phase2 ros_phase3 probability_phase2
        probability_phase3
     = calc_rate_of_spread ros_phase1 ros_phase2 ros_phase3' probability_phase2
        probability_phase3'"
proof -
  let ?c = "map_arr (\<lambda>x. flt x (Fin 0.5)) probability_phase2"
  have c: "py_lt (Inr probability_phase2) (lit 0.5) = Inr ?c"
    by (simp add: py_lt_def lit_def lift2_def bindE_def bop_scalar_right)
  have t: "list_all id (elems ?c)"
    using p2 by (simp add: elems_map_arr list_all_iff)
  have r3': "rshape (Inr ros_phase3 :: res) = rshape (Inr ros_phase3')"
    and p3': "rshape (Inr probability_phase3 :: res) = rshape (Inr probability_phase3')"
    using r3 p3 by (simp_all add: rshape_def)
  show ?thesis
    unfolding calc_rate_of_spread_def c py_add_def py_mul_def py_sub_def
    by (intro np_where_true [OF t] lift2_shape refl r3' p3')
qed

theorem rate_of_spread_ignores_phase3_below_half_witness:
  "list_all (\<lambda>x. flt x (Fin 0.5)) (elems (Np1 [Fin 0.3, Fin 0.1]))
   \<and> shape (Np1 [Fin 5, Fin 6]) = shape (Np1 [Fin 7, NaN])
   \<and> shape (Py (Fin 0.2)) = shape (Py (Fin 0.9))
   \<and> calc_rate_of_spread (Np1 [Fin 1, Fin 2]) (Np1 [Fin 3, Fin 4]) (Np1 [Fin 5, Fin 6])
        (Np1 [Fin 0.3, Fin 0.1]) (Py (Fin 0.2))
     = calc_rate_of_spread (Np1 [Fin 1, Fin 2]) (Np1 [Fin 3, Fin 4]) (Np1 [Fin 7, NaN])
        (Np1 [Fin 0.3, Fin 0.1]) (Py (Fin 0.9))"
  using rate_of_spread_ignores_phase3_below_half
    [of "Np1 [Fin 0.3, Fin 0.1]" "Np1 [Fin 5, Fin 6]" "Np1 [Fin 7, NaN]"
      "Py (Fin 0.2)" "Py (Fin 0.9)" "Np1 [Fin 1, Fin 2]" "Np1 [Fin 3, Fin 4]"]
  by simp

subsection \<open>C10: the slope effect downhill\<close>




end
